theory Spec2Isabelle
  imports Complex_Main
begin

section \<open>Numbers\<close>

text \<open>
  The arrays of \<^verbatim>\<open>featurize.py\<close> hold float64 values. A value is modelled as a real number
  or one of the three special values of IEEE arithmetic. Rounding, overflow to infinity and the
  sign of zero are left out: a finite result is the exact real result. What is kept is what the
  code tests for: \<^verbatim>\<open>np.isnan\<close>, \<^verbatim>\<open>w != 0\<close>, and the fact that a division by zero gives
  an infinity or NaN and not a number.
\<close>

datatype npfloat = Fin real | PInf | NInf | NaN

fun is_Fin :: "npfloat \<Rightarrow> bool" where
  "is_Fin (Fin a) = True"
| "is_Fin x = False"

fun the_Fin :: "npfloat \<Rightarrow> real" where
  "the_Fin (Fin a) = a"
| "the_Fin x = 0"

definition inf_of_sign :: "real \<Rightarrow> npfloat" where
  "inf_of_sign s = (if s = 0 then NaN else if 0 < s then PInf else NInf)"

fun fsgn :: "npfloat \<Rightarrow> real" where
  "fsgn (Fin a) = sgn a"
| "fsgn PInf = 1"
| "fsgn NInf = - 1"
| "fsgn NaN = 0"

fun fneg :: "npfloat \<Rightarrow> npfloat" where
  "fneg (Fin a) = Fin (- a)"
| "fneg PInf = NInf"
| "fneg NInf = PInf"
| "fneg NaN = NaN"

fun fadd :: "npfloat \<Rightarrow> npfloat \<Rightarrow> npfloat" where
  "fadd (Fin a) (Fin b) = Fin (a + b)"
| "fadd NaN y = NaN"
| "fadd x NaN = NaN"
| "fadd PInf NInf = NaN"
| "fadd NInf PInf = NaN"
| "fadd PInf y = PInf"
| "fadd x PInf = PInf"
| "fadd NInf y = NInf"
| "fadd x NInf = NInf"

definition fsub :: "npfloat \<Rightarrow> npfloat \<Rightarrow> npfloat" where
  "fsub x y = fadd x (fneg y)"

fun fmul :: "npfloat \<Rightarrow> npfloat \<Rightarrow> npfloat" where
  "fmul (Fin a) (Fin b) = Fin (a * b)"
| "fmul NaN y = NaN"
| "fmul x NaN = NaN"
| "fmul x y = inf_of_sign (fsgn x * fsgn y)"

text \<open>
  Division: a finite value over zero is NaN for \<open>0 / 0\<close> and an infinity otherwise (numpy warns
  and carries on), a finite value over an infinity is zero, infinity over infinity is NaN.
\<close>

fun fdiv :: "npfloat \<Rightarrow> npfloat \<Rightarrow> npfloat" where
  "fdiv (Fin a) (Fin b) = (if b = 0 then inf_of_sign (sgn a) else Fin (a / b))"
| "fdiv NaN y = NaN"
| "fdiv x NaN = NaN"
| "fdiv (Fin a) y = Fin 0"
| "fdiv x (Fin b) = inf_of_sign (fsgn x * (if b < 0 then - 1 else 1))"
| "fdiv x y = NaN"

fun fsin :: "npfloat \<Rightarrow> npfloat" where
  "fsin (Fin a) = Fin (sin a)"
| "fsin x = NaN"

fun fcos :: "npfloat \<Rightarrow> npfloat" where
  "fcos (Fin a) = Fin (cos a)"
| "fcos x = NaN"

fun fsqrt :: "npfloat \<Rightarrow> npfloat" where
  "fsqrt (Fin a) = (if a < 0 then NaN else Fin (sqrt a))"
| "fsqrt PInf = PInf"
| "fsqrt x = NaN"

definition isnan :: "npfloat \<Rightarrow> bool" where
  "isnan x \<longleftrightarrow> x = NaN"

text \<open>\<^verbatim>\<open>x != 0\<close>: true of every value but zero, NaN included.\<close>

definition ne0 :: "npfloat \<Rightarrow> bool" where
  "ne0 x \<longleftrightarrow> x \<noteq> Fin 0"

text \<open>\<^verbatim>\<open>x <= y\<close>: false as soon as one side is NaN.\<close>

fun fle :: "npfloat \<Rightarrow> npfloat \<Rightarrow> bool" where
  "fle NaN y = False"
| "fle x NaN = False"
| "fle NInf y = True"
| "fle x PInf = True"
| "fle (Fin a) (Fin b) = (a \<le> b)"
| "fle x y = False"

definition fsum :: "npfloat list \<Rightarrow> npfloat" where
  "fsum xs = foldr fadd xs (Fin 0)"

section \<open>Data model\<close>

type_synonym feat = string
type_synonym category = string

datatype error = KeyError | ValueError | IndexError | AssertionError

text \<open>
  \<^verbatim>\<open>VERSIONS[version]\<close> of \<^verbatim>\<open>reader.py\<close>: the three feature lists of a survey version. The
  registry itself is not part of the module; every function that reads it takes it as the
  argument \<open>VERSIONS\<close>.
\<close>

record SchemaInfo =
  real_feats :: "feat list"
  discrete_feats :: "feat list"
  alloc_flags :: "feat list"

text \<open>
  A row of a data frame. A real column holds a float (NaN when the value is missing), a
  categorical column holds a category or nothing, and \<open>PWGTP\<close> is the person weight. A data
  frame is the list of its rows, in order.
\<close>

record person =
  real_vals :: "feat \<Rightarrow> npfloat"
  cat_vals :: "feat \<Rightarrow> category option"
  PWGTP :: npfloat

text \<open>
  The stats dictionary. \<open>real_means\<close> and \<open>real_stds\<close> are pandas Series: index labels
  with values, in order. \<open>value_counts\<close> is a dict from a feature to a Series of counts indexed
  by category; it is an association list read with \<open>map_of\<close>.
\<close>

record StatsBundle =
  version :: string
  real_means :: "(feat \<times> npfloat) list"
  real_stds :: "(feat \<times> npfloat) list"
  value_counts :: "(feat \<times> (category \<times> int) list) list"
  n_total :: int
  sample :: "person list"

text \<open>
  A two-dimensional array is the list of its rows together with its number of columns, which
  the rows do not determine when there are none.
\<close>

record ndarray =
  ncols :: nat
  rows :: "npfloat list list"

definition shape0 :: "ndarray \<Rightarrow> nat" where
  "shape0 A = length (rows A)"

definition shape1 :: "ndarray \<Rightarrow> nat" where
  "shape1 A = ncols A"

definition well_shaped :: "ndarray \<Rightarrow> bool" where
  "well_shaped A \<longleftrightarrow> list_all (\<lambda>r. length r = ncols A) (rows A)"

section \<open>Counting columns\<close>

text \<open>\<^verbatim>\<open>v.size + (1 if v.sum() < n_total else 0)\<close>\<close>

definition has_overflow :: "(category \<times> int) list \<Rightarrow> int \<Rightarrow> bool" where
  "has_overflow vc n \<longleftrightarrow> sum_list (map snd vc) < n"

definition block_width :: "(category \<times> int) list \<Rightarrow> int \<Rightarrow> nat" where
  "block_width vc n = length vc + (if has_overflow vc n then 1 else 0)"

text \<open>
  \<^verbatim>\<open>_num_feats\<close>: the number of distinct labels of \<open>real_means\<close> that are not skipped, plus
  the block widths of the entries of \<open>value_counts\<close> that are not skipped.
\<close>

definition py_num_feats :: "StatsBundle \<Rightarrow> feat set \<Rightarrow> nat" where
  "py_num_feats stats skip_feats =
     length (remdups (filter (\<lambda>f. f \<notin> skip_feats) (map fst (real_means stats))))
     + sum_list (map (\<lambda>(k, v). block_width v (n_total stats))
         (filter (\<lambda>(k, v). k \<notin> skip_feats) (value_counts stats)))"

section \<open>The encoder\<close>

text \<open>
  numpy broadcasting of a one-dimensional operand of length \<open>m\<close> against the columns of a
  target of width \<open>w\<close> that must keep its shape: the lengths agree or the operand has length one.
\<close>

definition np_broadcastable :: "nat \<Rightarrow> nat \<Rightarrow> bool" where
  "np_broadcastable m w \<longleftrightarrow> m = w \<or> m = 1"

definition np_broadcast :: "'a list \<Rightarrow> nat \<Rightarrow> 'a list" where
  "np_broadcast v w = (if length v = w then v else replicate w (hd v))"

text \<open>Writing \<open>block\<close> into the columns of a row from \<open>start\<close> on.\<close>

definition set_cols :: "nat \<Rightarrow> 'a list \<Rightarrow> 'a list \<Rightarrow> 'a list" where
  "set_cols start block row = take start row @ block @ drop (start + length block) row"

text \<open>
  \<^verbatim>\<open>pd.Categorical(df[k], categories=vc.index).codes\<close>: the position of the value among the
  categories, \<open>-1\<close> for a value that is missing or not a category.
\<close>

fun index_of :: "'a \<Rightarrow> 'a list \<Rightarrow> nat option" where
  "index_of x [] = None"
| "index_of x (y # ys) =
     (if x = y then Some 0 else map_option Suc (index_of x ys))"

definition code_of :: "category option \<Rightarrow> category list \<Rightarrow> int" where
  "code_of v cats =
     (case v of None \<Rightarrow> - 1
      | Some x \<Rightarrow> (case index_of x cats of None \<Rightarrow> - 1 | Some i \<Rightarrow> int i))"

text \<open>
  \<^verbatim>\<open>np.eye(n).take(c, axis=0)\<close> for one index: numpy's default mode accepts an index from
  \<open>-n\<close> to \<open>n - 1\<close> and counts a negative one from the end; any other index is an IndexError.
\<close>

definition eye_row :: "nat \<Rightarrow> nat \<Rightarrow> npfloat list" where
  "eye_row n i = map (\<lambda>j. if j = i then Fin 1 else Fin 0) [0..<n]"

definition take_index :: "nat \<Rightarrow> int \<Rightarrow> nat option" where
  "take_index n i =
     (if 0 \<le> i \<and> i < int n then Some (nat i)
      else if - int n \<le> i \<and> i < 0 then Some (nat (i + int n))
      else None)"

definition eye_take :: "nat \<Rightarrow> int \<Rightarrow> npfloat list option" where
  "eye_take n i = map_option (eye_row n) (take_index n i)"

text \<open>The real columns of one row: \<^verbatim>\<open>reals[:] = df[real_feats]\<close> and the three updates.\<close>

definition standardize :: "npfloat list \<Rightarrow> npfloat list \<Rightarrow> npfloat list \<Rightarrow> npfloat list" where
  "standardize vals means stds =
     map (\<lambda>x. if isnan x then Fin 0 else x)
       (map2 fdiv (map2 fsub vals means) stds)"

definition reals_of_row ::
  "feat list \<Rightarrow> npfloat list \<Rightarrow> npfloat list \<Rightarrow> nat \<Rightarrow> person \<Rightarrow> npfloat list" where
  "reals_of_row rf means stds w p =
     standardize (np_broadcast (map (real_vals p) rf) w)
       (np_broadcast means w) (np_broadcast stds w)"

text \<open>
  The loop over the discrete features and allocation flags. The state is the buffer, the column
  cursor \<open>start_col\<close> and the column names. \<open>bit\<close> is a slice of the buffer, cut off at the
  buffer's width, and \<open>take\<close> refuses an output of another shape than its result.
\<close>

definition slice_width :: "nat \<Rightarrow> nat \<Rightarrow> nat \<Rightarrow> nat" where
  "slice_width w a b = min b w - min a w"

fun those_rows :: "'a option list \<Rightarrow> 'a list option" where
  "those_rows [] = Some []"
| "those_rows (x # xs) =
     (case x of None \<Rightarrow> None
      | Some y \<Rightarrow> map_option ((#) y) (those_rows xs))"

fun dummies_loop ::
  "StatsBundle \<Rightarrow> feat set \<Rightarrow> person list \<Rightarrow> feat list \<Rightarrow>
   ndarray \<times> nat \<times> string list \<Rightarrow> error + ndarray \<times> nat \<times> string list" where
  "dummies_loop stats skip_feats df [] st = Inr st"
| "dummies_loop stats skip_feats df (k # ks) (out, start_col, feat_names) =
     (if k \<in> skip_feats then dummies_loop stats skip_feats df ks (out, start_col, feat_names)
      else case map_of (value_counts stats) k of
        None \<Rightarrow> Inl KeyError
      | Some vc \<Rightarrow>
          if \<not> distinct (map fst vc) then Inl ValueError
          else
            let c = map (\<lambda>p. code_of (cat_vals p k) (map fst vc)) df;
                n_codes = length vc;
                names1 = feat_names @ map (\<lambda>v. k @ ''_'' @ v) (map fst vc);
                ovf = has_overflow vc (n_total stats);
                c = (if ovf then map (\<lambda>i. if i = - 1 then int n_codes else i) c else c);
                names2 = (if ovf then names1 @ [k @ ''_nan''] else names1);
                n_codes = (if ovf then n_codes + 1 else n_codes)
            in if slice_width (ncols out) start_col (start_col + n_codes) \<noteq> n_codes
               then Inl ValueError
               else case those_rows (map (eye_take n_codes) c) of
                 None \<Rightarrow> Inl IndexError
               | Some blocks \<Rightarrow>
                   dummies_loop stats skip_feats df ks
                     (out\<lparr>rows := map2 (set_cols start_col) blocks (rows out)\<rparr>,
                      start_col + n_codes, names2))"

text \<open>
  \<^verbatim>\<open>np.empty\<close> leaves its buffer uninitialised; the model fills it with NaN.
\<close>

definition np_empty :: "nat \<Rightarrow> nat \<Rightarrow> ndarray" where
  "np_empty n m = \<lparr>ncols = m, rows = replicate n (replicate m NaN)\<rparr>"

text \<open>
  \<^verbatim>\<open>get_dummies(df, stats, num_feats, ret_df, skip_feats, out)\<close>. The result is the pair of
  the column names (with \<open>ret_df\<close>) and the array.
\<close>

definition get_dummies ::
  "(string \<Rightarrow> SchemaInfo option) \<Rightarrow> person list \<Rightarrow> StatsBundle \<Rightarrow> nat option \<Rightarrow> bool \<Rightarrow>
   feat set \<Rightarrow> ndarray option \<Rightarrow> error + string list option \<times> ndarray" where
  "get_dummies VERSIONS df stats num_feats ret_df skip_feats out =
     (case VERSIONS (version stats) of
        None \<Rightarrow> Inl KeyError
      | Some info \<Rightarrow>
          let num_feats = (case num_feats of None \<Rightarrow> py_num_feats stats skip_feats
                           | Some n \<Rightarrow> n);
              out_ok = (case out of None \<Rightarrow> True
                        | Some b \<Rightarrow> shape0 b = length df \<and> shape1 b = num_feats);
              out = (case out of None \<Rightarrow> np_empty (length df) num_feats | Some b \<Rightarrow> b)
          in if \<not> out_ok then Inl AssertionError
             else
               let rf = filter (\<lambda>f. f \<notin> skip_feats) (real_feats info);
                   w = min (length rf) num_feats;
                   means = map snd (real_means stats);
                   stds = map snd (real_stds stats)
               in if \<not> np_broadcastable (length rf) w then Inl ValueError
                  else if \<not> np_broadcastable (length means) w then Inl ValueError
                  else if \<not> np_broadcastable (length stds) w then Inl ValueError
                  else
                    let out1 = out\<lparr>rows :=
                          map2 (\<lambda>p row. set_cols 0 (reals_of_row rf means stds w p) row)
                            df (rows out)\<rparr>
                    in case dummies_loop stats skip_feats df
                              (discrete_feats info @ alloc_flags info)
                              (out1, length rf, rf) of
                         Inl e \<Rightarrow> Inl e
                       | Inr (out2, start_col, feat_names) \<Rightarrow>
                           if start_col \<noteq> num_feats then Inl AssertionError
                           else Inr (if ret_df then Some feat_names else None, out2))"

section \<open>Embeddings\<close>

definition column :: "ndarray \<Rightarrow> nat \<Rightarrow> npfloat list" where
  "column A i = map (\<lambda>r. r ! i) (rows A)"

text \<open>
  \<^verbatim>\<open>np.dot(A.T, B.T)\<close> for \<open>A\<close> of shape \<open>(n, f)\<close> and \<open>B\<close> of shape \<open>(q, n)\<close>: row \<open>i\<close>
  holds, for every row of \<open>B\<close>, its product with column \<open>i\<close> of \<open>A\<close>.
\<close>

definition dot_TT :: "ndarray \<Rightarrow> ndarray \<Rightarrow> npfloat list list" where
  "dot_TT A B =
     map (\<lambda>i. map (\<lambda>w. fsum (map2 fmul (column A i) w)) (rows B)) [0..<ncols A]"

text \<open>\<^verbatim>\<open>out[:, nz] /= w[np.newaxis, nz]\<close> with \<^verbatim>\<open>nz = w != 0\<close>\<close>

definition div_nz :: "npfloat list \<Rightarrow> npfloat list list \<Rightarrow> npfloat list list" where
  "div_nz w out = map (\<lambda>row. map2 (\<lambda>x wk. if ne0 wk then fdiv x wk else x) row w) out"

definition linear_embedding :: "ndarray \<Rightarrow> ndarray \<Rightarrow> error + ndarray" where
  "linear_embedding feats wts =
     (if shape0 feats \<noteq> shape1 wts then Inl ValueError
      else let out = dot_TT feats wts;
               w = map fsum (rows wts)
           in Inr \<lparr>ncols = shape0 wts, rows = div_nz w out\<rparr>)"

text \<open>\<^verbatim>\<open>np.dot(A, B)\<close>\<close>

definition matmul :: "ndarray \<Rightarrow> ndarray \<Rightarrow> ndarray" where
  "matmul A B =
     \<lparr>ncols = ncols B,
      rows = map (\<lambda>r. map (\<lambda>d. fsum (map2 fmul r (column B d))) [0..<ncols B]) (rows A)\<rparr>"

definition map_array :: "(npfloat \<Rightarrow> npfloat) \<Rightarrow> ndarray \<Rightarrow> ndarray" where
  "map_array f A = \<lparr>ncols = ncols A, rows = map (map f) (rows A)\<rparr>"

definition rff_embedding :: "ndarray \<Rightarrow> ndarray \<Rightarrow> ndarray \<Rightarrow> error + ndarray" where
  "rff_embedding feats wts freqs =
     (if shape1 feats \<noteq> shape0 freqs then Inl ValueError
      else let angles = matmul feats freqs;
               sin_angles = map_array fsin angles;
               cos_angles = map_array fcos angles
           in if shape0 feats \<noteq> shape1 wts then Inl ValueError
              else let out = dot_TT sin_angles wts @ dot_TT cos_angles wts;
                       w = map fsum (rows wts)
                   in Inr \<lparr>ncols = shape0 wts, rows = div_nz w out\<rparr>)"

section \<open>Bandwidth\<close>

text \<open>
  \<^verbatim>\<open>euclidean_distances(samp, squared=True)\<close> of scikit-learn: it refuses an array with no
  row, with no column or with a value that is not finite, and returns the matrix of the squared
  distances between the rows.
\<close>

definition sq_dist :: "npfloat list \<Rightarrow> npfloat list \<Rightarrow> npfloat" where
  "sq_dist x y = fsum (map2 (\<lambda>a b. fmul (fsub a b) (fsub a b)) x y)"

definition euclidean_distances :: "ndarray \<Rightarrow> error + npfloat list list" where
  "euclidean_distances X =
     (if rows X = [] \<or> ncols X = 0 \<or> \<not> list_all (list_all is_Fin) (rows X)
      then Inl ValueError
      else Inr (map (\<lambda>x. map (sq_dist x) (rows X)) (rows X)))"

text \<open>\<^verbatim>\<open>np.triu_indices_from(D2, k=1)\<close>: the positions above the diagonal, row by row.\<close>

definition triu_indices :: "nat \<Rightarrow> (nat \<times> nat) list" where
  "triu_indices n = concat (map (\<lambda>i. map (\<lambda>j. (i, j)) [Suc i..<n]) [0..<n])"

fun finsert :: "npfloat \<Rightarrow> npfloat list \<Rightarrow> npfloat list" where
  "finsert x [] = [x]"
| "finsert x (y # ys) = (if fle x y then x # y # ys else y # finsert x ys)"

definition fsort :: "npfloat list \<Rightarrow> npfloat list" where
  "fsort xs = foldr finsert xs []"

text \<open>
  \<^verbatim>\<open>np.median\<close>: NaN for no value at all or when a value is NaN, else the middle of the
  sorted values, or the mean of the two in the middle.
\<close>

definition np_median :: "npfloat list \<Rightarrow> npfloat" where
  "np_median xs =
     (if xs = [] \<or> list_ex isnan xs then NaN
      else let s = fsort xs; n = length xs
           in if odd n then s ! (n div 2)
              else fdiv (fadd (s ! (n div 2 - 1)) (s ! (n div 2))) (Fin 2))"

definition pick_gaussian_bandwidth ::
  "(string \<Rightarrow> SchemaInfo option) \<Rightarrow> StatsBundle \<Rightarrow> feat set \<Rightarrow> error + npfloat" where
  "pick_gaussian_bandwidth VERSIONS stats skip_feats =
     (case get_dummies VERSIONS (sample stats) stats None False skip_feats None of
        Inl e \<Rightarrow> Inl e
      | Inr (names, samp) \<Rightarrow>
          (case euclidean_distances samp of
             Inl e \<Rightarrow> Inl e
           | Inr D2 \<Rightarrow>
               Inr (fsqrt (np_median
                 (map (\<lambda>(i, j). D2 ! i ! j) (triu_indices (length D2)))))))"

section \<open>The aggregation driver\<close>

text \<open>
  What \<^verbatim>\<open>get_embeddings\<close> calls that is not arithmetic: the schema registry, the chunked
  reader \<^verbatim>\<open>pd.read_hdf(file, chunksize=chunksize)\<close>, the query evaluator
  \<^verbatim>\<open>c.eval(subsets).astype(bool)\<close> (one row of flags per query) and \<^verbatim>\<open>pick_rff_freqs\<close>,
  whose body draws from numpy's random state and uses scipy's QR decomposition; only the array
  it returns is used. The progress bar and the messages on stderr are left out.
\<close>

record 'f env =
  schema_registry :: "string \<Rightarrow> SchemaInfo option"
  read_hdf :: "'f \<Rightarrow> nat \<Rightarrow> person list list"
  df_eval :: "string \<Rightarrow> person list \<Rightarrow> error + bool list list"
  pick_rff_freqs :: "nat \<Rightarrow> npfloat \<Rightarrow> nat option \<Rightarrow> nat \<Rightarrow> bool \<Rightarrow> error + ndarray"

text \<open>\<^verbatim>\<open>str.rstrip()\<close> on ASCII text.\<close>

definition is_space :: "char \<Rightarrow> bool" where
  "is_space c \<longleftrightarrow>
     c \<in> {CHR 0x09, CHR 0x0A, CHR 0x0B, CHR 0x0C, CHR 0x0D,
          CHR 0x1C, CHR 0x1D, CHR 0x1E, CHR 0x1F, CHR 0x20}"

definition rstrip :: "string \<Rightarrow> string" where
  "rstrip s = rev (dropWhile is_space (rev s))"

text \<open>\<^verbatim>\<open>subsets.rstrip()[:-1].count(',') + 1\<close>\<close>

definition count_subsets :: "string \<Rightarrow> nat" where
  "count_subsets subsets = count_list (butlast (rstrip subsets)) CHR '','' + 1"

text \<open>
  The rows of a chunk that some query selects, with the flags of those rows. A chunk of one row
  is doubled for the evaluation and the flags of the copy are cut off.
\<close>

definition select_rows ::
  "(string \<Rightarrow> person list \<Rightarrow> error + bool list list) \<Rightarrow> string \<Rightarrow> person list \<Rightarrow>
   error + person list \<times> bool list list" where
  "select_rows ev subsets c =
     (let hacked = (length c = 1);
          c2 = (if hacked then c @ c else c)
      in case ev subsets c2 of
           Inl e \<Rightarrow> Inl e
         | Inr which0 \<Rightarrow>
             if \<not> list_all (\<lambda>w. length w = length c2) which0 then Inl ValueError
             else
               let which = (if hacked then map (take 1) which0 else which0);
                   keep = map (\<lambda>j. list_ex (\<lambda>w. w ! j) which) [0..<length c]
               in Inr (map fst (filter snd (zip c keep)),
                       map (\<lambda>w. map fst (filter snd (zip w keep))) which))"

text \<open>
  \<^verbatim>\<open>wts = np.tile(c.PWGTP, (n_subsets, 1))\<close>, then \<^verbatim>\<open>wts[i, ~w] = 0\<close> for every row
  \<open>w\<close> of the flags.
\<close>

definition tile_weights :: "nat \<Rightarrow> person list \<Rightarrow> bool list list \<Rightarrow> error + ndarray" where
  "tile_weights n_subsets c which =
     (if n_subsets < length which then Inl IndexError
      else Inr \<lparr>ncols = length c,
                rows = map (\<lambda>i. if i < length which
                                 then map2 (\<lambda>p b. if b then PWGTP p else Fin 0) c (which ! i)
                                 else map PWGTP c)
                         [0..<n_subsets]\<rparr>)"

text \<open>
  The state of the loops: the column names once a chunk has been encoded, the buffer
  \<open>dummies\<close> shared by all chunks, and the lists kept for the current file.
\<close>

record loop_state =
  st_feat_names :: "string list option"
  st_dummies :: ndarray
  st_lin_emb_pieces :: "ndarray list"
  st_rff_emb_pieces :: "ndarray list"
  st_weights :: "npfloat list list"
  st_total_weights :: "npfloat list"

definition chunk_step ::
  "'f env \<Rightarrow> StatsBundle \<Rightarrow> feat set \<Rightarrow> nat \<Rightarrow> ndarray option \<Rightarrow> string \<Rightarrow> nat \<Rightarrow>
   person list \<Rightarrow> loop_state \<Rightarrow> error + loop_state" where
  "chunk_step env stats skip_feats n_feats freqs subsets n_subsets c st =
     (case select_rows (df_eval env) subsets c of
        Inl e \<Rightarrow> Inl e
      | Inr (c', which) \<Rightarrow>
          if c' = [] then Inr st
          else
            let buf = \<lparr>ncols = ncols (st_dummies st),
                       rows = take (length c') (rows (st_dummies st))\<rparr>
            in case get_dummies (schema_registry env) c' stats (Some n_feats)
                      (st_feat_names st = None) skip_feats (Some buf) of
                 Inl e \<Rightarrow> Inl e
               | Inr (names, feats) \<Rightarrow>
                   (case tile_weights n_subsets c' which of
                      Inl e \<Rightarrow> Inl e
                    | Inr wts \<Rightarrow>
                        (case linear_embedding feats wts of
                           Inl e \<Rightarrow> Inl e
                         | Inr lin \<Rightarrow>
                             (case (case freqs of None \<Rightarrow> Inr []
                                    | Some F \<Rightarrow> map_sum id (\<lambda>r. [r]) (rff_embedding feats wts F)) of
                                Inl e \<Rightarrow> Inl e
                              | Inr rff \<Rightarrow>
                                  let ws = map fsum (rows wts)
                                  in Inr \<lparr>st_feat_names =
                                            (if st_feat_names st = None then names
                                             else st_feat_names st),
                                          st_dummies =
                                            \<lparr>ncols = ncols (st_dummies st),
                                             rows = rows feats
                                               @ drop (length c') (rows (st_dummies st))\<rparr>,
                                          st_lin_emb_pieces = st_lin_emb_pieces st @ [lin],
                                          st_rff_emb_pieces = st_rff_emb_pieces st @ rff,
                                          st_weights = st_weights st @ [ws],
                                          st_total_weights = map2 fadd (st_total_weights st) ws\<rparr>))))"

fun chunk_loop ::
  "'f env \<Rightarrow> StatsBundle \<Rightarrow> feat set \<Rightarrow> nat \<Rightarrow> ndarray option \<Rightarrow> string \<Rightarrow> nat \<Rightarrow>
   person list list \<Rightarrow> loop_state \<Rightarrow> error + loop_state" where
  "chunk_loop env stats skip_feats n_feats freqs subsets n_subsets [] st = Inr st"
| "chunk_loop env stats skip_feats n_feats freqs subsets n_subsets (c # cs) st =
     (case chunk_step env stats skip_feats n_feats freqs subsets n_subsets c st of
        Inl e \<Rightarrow> Inl e
      | Inr st' \<Rightarrow> chunk_loop env stats skip_feats n_feats freqs subsets n_subsets cs st')"

text \<open>
  \<^verbatim>\<open>ratio = ws.copy(); nz = total_weights != 0; ratio[nz] /= total_weights[nz]\<close>
\<close>

definition ratio_of :: "npfloat list \<Rightarrow> npfloat list \<Rightarrow> npfloat list" where
  "ratio_of tw ws = map2 (\<lambda>w t. if ne0 t then fdiv w t else w) ws tw"

text \<open>
  \<^verbatim>\<open>emb[file_idx] += l * rs\<close>: the piece must have the rows of the accumulator; its columns
  are the queries, as are the entries of \<open>rs\<close>.
\<close>

definition add_scaled ::
  "npfloat list list \<Rightarrow> ndarray \<Rightarrow> npfloat list \<Rightarrow> error + npfloat list list" where
  "add_scaled acc l rs =
     (if shape0 l \<noteq> length acc then Inl ValueError
      else Inr (map2 (\<lambda>a r. map2 fadd a (map2 fmul r rs)) acc (rows l)))"

fun sum_pieces ::
  "npfloat list list \<Rightarrow> (npfloat list \<times> ndarray) list \<Rightarrow> error + npfloat list list" where
  "sum_pieces acc [] = Inr acc"
| "sum_pieces acc ((rs, l) # ps) =
     (case add_scaled acc l rs of
        Inl e \<Rightarrow> Inl e
      | Inr acc' \<Rightarrow> sum_pieces acc' ps)"

definition zeros :: "nat \<Rightarrow> nat \<Rightarrow> npfloat list list" where
  "zeros m q = replicate m (replicate q (Fin 0))"

text \<open>
  One pass of the loop over the files: the embeddings and the region weights of the file, and
  the state that goes on to the next file.
\<close>

definition embed_file ::
  "'f env \<Rightarrow> StatsBundle \<Rightarrow> feat set \<Rightarrow> nat \<Rightarrow> nat \<Rightarrow> ndarray option \<Rightarrow> string \<Rightarrow> nat \<Rightarrow>
   person list list \<Rightarrow> string list option \<times> ndarray \<Rightarrow>
   error + (npfloat list list \<times> npfloat list list \<times> npfloat list) \<times> string list option \<times> ndarray"
  where
  "embed_file env stats skip_feats n_feats n_freqs freqs subsets n_subsets chunks st0 =
     (case chunk_loop env stats skip_feats n_feats freqs subsets n_subsets chunks
             \<lparr>st_feat_names = fst st0, st_dummies = snd st0, st_lin_emb_pieces = [],
              st_rff_emb_pieces = [], st_weights = [],
              st_total_weights = replicate n_subsets (Fin 0)\<rparr> of
        Inl e \<Rightarrow> Inl e
      | Inr st \<Rightarrow>
          let ratios = map (ratio_of (st_total_weights st)) (st_weights st)
          in case sum_pieces (zeros n_feats n_subsets) (zip ratios (st_lin_emb_pieces st)) of
               Inl e \<Rightarrow> Inl e
             | Inr emb_lin \<Rightarrow>
                 (case (if freqs = None then Inr []
                        else sum_pieces (zeros (2 * n_freqs) n_subsets)
                               (zip ratios (st_rff_emb_pieces st))) of
                    Inl e \<Rightarrow> Inl e
                  | Inr emb_rff \<Rightarrow>
                      Inr ((emb_lin, emb_rff, st_total_weights st),
                           st_feat_names st, st_dummies st)))"

fun file_loop ::
  "'f env \<Rightarrow> StatsBundle \<Rightarrow> feat set \<Rightarrow> nat \<Rightarrow> nat \<Rightarrow> ndarray option \<Rightarrow> string \<Rightarrow> nat \<Rightarrow>
   nat \<Rightarrow> 'f list \<Rightarrow> string list option \<times> ndarray \<Rightarrow>
   error + (npfloat list list \<times> npfloat list list \<times> npfloat list) list \<times> string list option"
  where
  "file_loop env stats skip_feats n_feats n_freqs freqs subsets n_subsets chunksize [] st =
     Inr ([], fst st)"
| "file_loop env stats skip_feats n_feats n_freqs freqs subsets n_subsets chunksize (f # fs) st =
     (case embed_file env stats skip_feats n_feats n_freqs freqs subsets n_subsets
             (read_hdf env f chunksize) st of
        Inl e \<Rightarrow> Inl e
      | Inr (r, st') \<Rightarrow>
          (case file_loop env stats skip_feats n_feats n_freqs freqs subsets n_subsets
                  chunksize fs st' of
             Inl e \<Rightarrow> Inl e
           | Inr (rs, names) \<Rightarrow> Inr (r # rs, names)))"

text \<open>
  The arrays that \<^verbatim>\<open>get_embeddings\<close> returns, with their query axis or, after
  \<^verbatim>\<open>emb[:, :, 0]\<close> and \<^verbatim>\<open>region_weights[:, 0]\<close>, without it.
\<close>

datatype emb_array = WithQueries "npfloat list list list" | Squeezed "npfloat list list"

datatype weight_array = WeightsWithQueries "npfloat list list" | WeightsSqueezed "npfloat list"

text \<open>
  The two return statements: \<^verbatim>\<open>emb_lin, region_weights, feat_names\<close> with \<open>skip_rbf\<close>, and
  \<^verbatim>\<open>emb_lin, emb_rff, region_weights, freqs, bandwidth, feat_names\<close> without.
\<close>

datatype embeddings =
    Linear emb_array weight_array "string list option"
  | LinearRff emb_array emb_array weight_array ndarray "npfloat option" "string list option"

definition squeeze_emb :: "bool \<Rightarrow> npfloat list list list \<Rightarrow> emb_array" where
  "squeeze_emb sq e = (if sq then Squeezed (map (map (\<lambda>r. r ! 0)) e) else WithQueries e)"

definition squeeze_weights :: "bool \<Rightarrow> npfloat list list \<Rightarrow> weight_array" where
  "squeeze_weights sq w = (if sq then WeightsSqueezed (map (\<lambda>r. r ! 0) w) else WeightsWithQueries w)"

text \<open>
  The set-up of the frequencies: nothing with \<open>skip_rbf\<close>; the caller's matrix when there is
  one, with the bandwidth as it was passed and \<^verbatim>\<open>n_freqs = freqs.shape[1]\<close>; else the
  bandwidth (picked when none was passed) and a sampled matrix.
\<close>

definition rff_setup ::
  "'f env \<Rightarrow> StatsBundle \<Rightarrow> feat set \<Rightarrow> nat \<Rightarrow> bool \<Rightarrow> nat \<Rightarrow> ndarray option \<Rightarrow>
   npfloat option \<Rightarrow> nat option \<Rightarrow> bool \<Rightarrow> error + ndarray option \<times> npfloat option \<times> nat" where
  "rff_setup env stats skip_feats n_feats skip_rbf n_freqs freqs bandwidth seed rff_orthogonal =
     (if skip_rbf then Inr (freqs, bandwidth, n_freqs)
      else case freqs of
        Some F \<Rightarrow> Inr (Some F, bandwidth, shape1 F)
      | None \<Rightarrow>
          (case (case bandwidth of
                   None \<Rightarrow> pick_gaussian_bandwidth (schema_registry env) stats skip_feats
                 | Some b \<Rightarrow> Inr b) of
             Inl e \<Rightarrow> Inl e
           | Inr b \<Rightarrow>
               (case pick_rff_freqs env n_freqs b seed n_feats rff_orthogonal of
                  Inl e \<Rightarrow> Inl e
                | Inr F \<Rightarrow> Inr (Some F, Some b, n_freqs))))"

definition get_embeddings ::
  "'f env \<Rightarrow> 'f list \<Rightarrow> StatsBundle \<Rightarrow> nat \<Rightarrow> ndarray option \<Rightarrow> npfloat option \<Rightarrow> nat \<Rightarrow>
   bool \<Rightarrow> feat set \<Rightarrow> nat option \<Rightarrow> bool \<Rightarrow> string option \<Rightarrow> bool \<Rightarrow> bool \<Rightarrow>
   error + embeddings" where
  "get_embeddings env files stats n_freqs freqs bandwidth chunksize skip_rbf skip_feats seed
     rff_orthogonal subsets squeeze_queries skip_alloc_flags =
     (case (if skip_alloc_flags
            then (case schema_registry env (version stats) of
                    None \<Rightarrow> Inl KeyError
                  | Some info \<Rightarrow> Inr (skip_feats \<union> set (alloc_flags info)))
            else Inr skip_feats) of
        Inl e \<Rightarrow> Inl e
      | Inr skip_feats \<Rightarrow>
          let n_feats = py_num_feats stats skip_feats
          in case rff_setup env stats skip_feats n_feats skip_rbf n_freqs freqs bandwidth seed
                    rff_orthogonal of
               Inl e \<Rightarrow> Inl e
             | Inr (freqs, bandwidth, n_freqs) \<Rightarrow>
                 let subsets = (case subsets of None \<Rightarrow> ''PWGTP > 0'' | Some s \<Rightarrow> s);
                     n_subsets = count_subsets subsets;
                     subsets = (if n_subsets = 1 then subsets @ '','' else subsets)
                 in case file_loop env stats skip_feats n_feats n_freqs
                           (if skip_rbf then None else freqs) subsets n_subsets chunksize files
                           (None, np_empty chunksize n_feats) of
                      Inl e \<Rightarrow> Inl e
                    | Inr (res, feat_names) \<Rightarrow>
                        let sq = (squeeze_queries \<and> n_subsets = 1);
                            emb_lin = squeeze_emb sq (map fst res);
                            emb_rff = squeeze_emb sq (map (fst \<circ> snd) res);
                            region_weights = squeeze_weights sq (map (snd \<circ> snd) res)
                        in case (if skip_rbf then None else freqs) of
                             None \<Rightarrow> Inr (Linear emb_lin region_weights feat_names)
                           | Some F \<Rightarrow>
                               Inr (LinearRff emb_lin emb_rff region_weights F bandwidth
                                      feat_names))"

section \<open>Definitions used in the proofs\<close>

definition loop_width :: "StatsBundle \<Rightarrow> feat set \<Rightarrow> feat list \<Rightarrow> nat" where
  "loop_width stats skip_feats ks =
     sum_list (map (\<lambda>k. case map_of (value_counts stats) k of None \<Rightarrow> 0
                         | Some vc \<Rightarrow> block_width vc (n_total stats))
       (filter (\<lambda>k. k \<notin> skip_feats) ks))"

definition feat_block :: "(category \<times> int) list \<Rightarrow> int \<Rightarrow> category option \<Rightarrow> npfloat list option" where
  "feat_block vc nt v =
     (let c = code_of v (map fst vc)
      in eye_take (block_width vc nt)
           (if has_overflow vc nt \<and> c = - 1 then int (length vc) else c))"

definition the_block :: "StatsBundle \<Rightarrow> feat \<Rightarrow> person \<Rightarrow> npfloat list" where
  "the_block stats k p =
     (case map_of (value_counts stats) k of None \<Rightarrow> []
      | Some vc \<Rightarrow> (case feat_block vc (n_total stats) (cat_vals p k) of
                     None \<Rightarrow> [] | Some b \<Rightarrow> b))"

definition row_blocks :: "StatsBundle \<Rightarrow> feat set \<Rightarrow> feat list \<Rightarrow> person \<Rightarrow> npfloat list" where
  "row_blocks stats skip_feats ks p =
     concat (map (\<lambda>k. the_block stats k p) (filter (\<lambda>k. k \<notin> skip_feats) ks))"

definition stats_match_schema :: "SchemaInfo \<Rightarrow> StatsBundle \<Rightarrow> bool" where
  "stats_match_schema info stats \<longleftrightarrow>
     distinct (real_feats info) \<and>
     set (map fst (real_means stats)) = set (real_feats info) \<and>
     distinct (discrete_feats info @ alloc_flags info) \<and>
     distinct (map fst (value_counts stats)) \<and>
     set (map fst (value_counts stats)) = set (discrete_feats info @ alloc_flags info)"

definition kept_reals :: "SchemaInfo \<Rightarrow> feat set \<Rightarrow> feat list" where
  "kept_reals info skip_feats = filter (\<lambda>f. f \<notin> skip_feats) (real_feats info)"

definition encode_row :: "SchemaInfo \<Rightarrow> StatsBundle \<Rightarrow> feat set \<Rightarrow> person \<Rightarrow> npfloat list" where
  "encode_row info stats skip_feats p =
     reals_of_row (kept_reals info skip_feats) (map snd (real_means stats))
       (map snd (real_stds stats)) (length (kept_reals info skip_feats)) p
     @ row_blocks stats skip_feats (discrete_feats info @ alloc_flags info) p"

definition ex_info :: SchemaInfo where
  "ex_info = \<lparr>real_feats = [''AGEP''], discrete_feats = [''SEX''], alloc_flags = [''FAGEP'']\<rparr>"

definition ex_stats :: StatsBundle where
  "ex_stats = \<lparr>version = ''2015'',
     real_means = [(''AGEP'', Fin 40)], real_stds = [(''AGEP'', Fin 10)],
     value_counts = [(''SEX'', [(''1'', 3), (''2'', 2)]), (''FAGEP'', [(''0'', 4)])],
     n_total = 5, sample = []\<rparr>"

definition ex_VERSIONS :: "string \<Rightarrow> SchemaInfo option" where
  "ex_VERSIONS v = (if v = ''2015'' then Some ex_info else None)"

definition ex_person :: "real \<Rightarrow> string option \<Rightarrow> string option \<Rightarrow> real \<Rightarrow> person" where
  "ex_person age sex fagep wt =
     \<lparr>real_vals = (\<lambda>f. if f = ''AGEP'' then Fin age else NaN),
      cat_vals = (\<lambda>f. if f = ''SEX'' then sex else if f = ''FAGEP'' then fagep else None),
      PWGTP = Fin wt\<rparr>"

definition cx_info :: SchemaInfo where
  "cx_info = \<lparr>real_feats = [], discrete_feats = [], alloc_flags = []\<rparr>"

definition cx_stats :: StatsBundle where
  "cx_stats = \<lparr>version = ''2015'',
     real_means = [(''AGEP'', Fin 40)], real_stds = [(''AGEP'', Fin 10)],
     value_counts = [], n_total = 5, sample = []\<rparr>"

definition zs_stats :: StatsBundle where
  "zs_stats = \<lparr>version = ''2015'',
     real_means = [(''AGEP'', Fin 40)], real_stds = [(''AGEP'', Fin 0)],
     value_counts = [(''SEX'', [(''1'', 3), (''2'', 2)]), (''FAGEP'', [(''0'', 4)])],
     n_total = 5, sample = []\<rparr>"

section \<open>The encoder: lemmas\<close>

lemma loop_width_Nil [simp]: "loop_width stats skip_feats [] = 0"
  by (simp add: loop_width_def)

lemma loop_width_Cons:
  "loop_width stats skip_feats (k # ks) =
     (if k \<in> skip_feats then 0
      else case map_of (value_counts stats) k of None \<Rightarrow> 0
           | Some vc \<Rightarrow> block_width vc (n_total stats))
     + loop_width stats skip_feats ks"
  by (simp add: loop_width_def)

lemma dummies_loop_cursor:
  "dummies_loop stats skip_feats df ks (out, s, names) = Inr (out', s', names') \<Longrightarrow>
   s' = s + loop_width stats skip_feats ks \<and> ncols out' = ncols out"
proof (induction ks arbitrary: out s names)
  case Nil
  then show ?case by simp
next
  case (Cons k ks)
  show ?case
  proof (cases "k \<in> skip_feats")
    case True
    with Cons show ?thesis by (simp add: loop_width_Cons)
  next
    case False
    with Cons.prems obtain vc where vc: "map_of (value_counts stats) k = Some vc"
      by (auto split: option.splits)
    from Cons.prems False vc obtain blocks where
      step: "dummies_loop stats skip_feats df ks
         (out\<lparr>rows := map2 (set_cols s) blocks (rows out)\<rparr>,
          s + block_width vc (n_total stats), 
          (if has_overflow vc (n_total stats) then (names @ map (\<lambda>v. k @ ''_'' @ v) (map fst vc)) @ [k @ ''_nan''] else names @ map (\<lambda>v. k @ ''_'' @ v) (map fst vc))) = Inr (out', s', names')"
      by (auto simp: Let_def block_width_def split: if_splits option.splits)
    from Cons.IH[OF step] False vc show ?thesis
      by (simp add: loop_width_Cons)
  qed
qed

lemma slice_width_iff:
  "slice_width w s (s + n) = n \<longleftrightarrow> n = 0 \<or> s + n \<le> w"
  by (auto simp: slice_width_def min_def)

lemma length_set_cols:
  "length b = 0 \<or> s + length b \<le> length row \<Longrightarrow> length (set_cols s b row) = length row"
  by (auto simp: set_cols_def)

lemma take_set_cols:
  "length b = 0 \<or> s + length b \<le> length row \<Longrightarrow>
   take (s + length b) (set_cols s b row) = take s row @ b"
  by (auto simp: set_cols_def)

lemma drop_set_cols:
  "length b = 0 \<or> s + length b \<le> length row \<Longrightarrow> s + length b \<le> s' \<Longrightarrow>
   drop s' (set_cols s b row) = drop s' row"
proof (cases "b = []")
  case True
  then show ?thesis by (simp add: set_cols_def)
next
  case False
  assume "length b = 0 \<or> s + length b \<le> length row" "s + length b \<le> s'"
  with False show ?thesis by (auto simp: set_cols_def)
qed

lemma those_rows_Some:
  "those_rows xs = Some ys \<Longrightarrow> length ys = length xs \<and> (\<forall>i<length xs. xs ! i = Some (ys ! i))"
proof (induction xs arbitrary: ys)
  case Nil
  then show ?case by simp
next
  case (Cons x xs)
  then show ?case
    by (auto split: option.splits simp: nth_Cons split: nat.splits)
qed

lemma those_rows_map_Some: "those_rows (map (\<lambda>x. Some (f x)) xs) = Some (map f xs)"
  by (induction xs) auto

lemma those_rows_None_iff: "those_rows xs = None \<longleftrightarrow> None \<in> set xs"
  by (induction xs) (auto split: option.splits)

lemma length_eye_take: "eye_take n i = Some b \<Longrightarrow> length b = n"
  by (auto simp: eye_take_def eye_row_def)

lemma length_feat_block: "feat_block vc nt v = Some b \<Longrightarrow> length b = block_width vc nt"
  by (auto simp: feat_block_def Let_def dest: length_eye_take)

lemma dummies_loop_step:
  assumes "k \<notin> skip_feats"
    and "dummies_loop stats skip_feats df (k # ks) (out, s, names) = Inr res"
  obtains vc blocks names2 where
    "map_of (value_counts stats) k = Some vc"
    "distinct (map fst vc)"
    "block_width vc (n_total stats) = 0 \<or> s + block_width vc (n_total stats) \<le> ncols out"
    "those_rows (map (\<lambda>p. feat_block vc (n_total stats) (cat_vals p k)) df) = Some blocks"
    "dummies_loop stats skip_feats df ks
       (out\<lparr>rows := map2 (set_cols s) blocks (rows out)\<rparr>,
        s + block_width vc (n_total stats), names2) = Inr res"
proof -
  from assms obtain vc where vc: "map_of (value_counts stats) k = Some vc"
    by (auto split: option.splits)
  have codes: "map (eye_take (block_width vc (n_total stats)))
          (if has_overflow vc (n_total stats)
           then map (\<lambda>i. if i = - 1 then int (length vc) else i)
                  (map (\<lambda>p. code_of (cat_vals p k) (map fst vc)) df)
           else map (\<lambda>p. code_of (cat_vals p k) (map fst vc)) df)
        = map (\<lambda>p. feat_block vc (n_total stats) (cat_vals p k)) df"
    by (auto simp: feat_block_def Let_def)
  have bw: "(if has_overflow vc (n_total stats) then length vc + 1 else length vc)
      = block_width vc (n_total stats)"
    by (simp add: block_width_def)
  from assms vc show thesis
    using that[OF vc]
    apply (simp add: Let_def bw codes slice_width_iff split: if_splits option.splits)
     apply (auto simp: block_width_def)
    done
qed

lemma row_blocks_Nil [simp]: "row_blocks stats skip_feats [] p = []"
  by (simp add: row_blocks_def)

lemma row_blocks_Cons:
  "row_blocks stats skip_feats (k # ks) p =
     (if k \<in> skip_feats then [] else the_block stats k p) @ row_blocks stats skip_feats ks p"
  by (simp add: row_blocks_def)

lemma dummies_loop_rows:
  assumes "dummies_loop stats skip_feats df ks (out, s, names) = Inr (out', s', names')"
    and "length (rows out) = length df"
    and "\<forall>r\<in>set (rows out). length r = ncols out"
  shows "length (rows out') = length df \<and> (\<forall>r\<in>set (rows out'). length r = ncols out) \<and>
     (\<forall>i<length df. rows out' ! i =
        take s (rows out ! i) @ row_blocks stats skip_feats ks (df ! i) @ drop s' (rows out ! i))"
  using assms
proof (induction ks arbitrary: out s names)
  case Nil
  then show ?case by simp
next
  case (Cons k ks)
  show ?case
  proof (cases "k \<in> skip_feats")
    case True
    with Cons.prems have "dummies_loop stats skip_feats df ks (out, s, names) = Inr (out', s', names')"
      by simp
    from Cons.IH[OF this Cons.prems(2,3)] True show ?thesis
      by (simp add: row_blocks_Cons)
  next
    case False
    let ?nt = "n_total stats"
    from dummies_loop_step[OF False Cons.prems(1)] obtain vc blocks names2 where
      vc: "map_of (value_counts stats) k = Some vc"
      and fit: "block_width vc ?nt = 0 \<or> s + block_width vc ?nt \<le> ncols out"
      and bl: "those_rows (map (\<lambda>p. feat_block vc ?nt (cat_vals p k)) df) = Some blocks"
      and rest: "dummies_loop stats skip_feats df ks
         (out\<lparr>rows := map2 (set_cols s) blocks (rows out)\<rparr>, s + block_width vc ?nt, names2)
         = Inr (out', s', names')"
      by blast
    let ?out1 = "out\<lparr>rows := map2 (set_cols s) blocks (rows out)\<rparr>"
    from those_rows_Some[OF bl] have lb: "length blocks = length df"
      and bi: "\<And>i. i < length df \<Longrightarrow> feat_block vc ?nt (cat_vals (df ! i) k) = Some (blocks ! i)"
      by auto
    have wi: "\<And>i. i < length df \<Longrightarrow> length (blocks ! i) = block_width vc ?nt"
      using bi length_feat_block by blast
    have ri: "\<And>i. i < length df \<Longrightarrow> length (rows out ! i) = ncols out"
      using Cons.prems(2,3) by simp
    have fiti: "\<And>i. i < length df \<Longrightarrow>
        length (blocks ! i) = 0 \<or> s + length (blocks ! i) \<le> length (rows out ! i)"
      using fit wi ri by auto
    have len1: "length (rows ?out1) = length df"
      using lb Cons.prems(2) by simp
    have nth1: "\<And>i. i < length df \<Longrightarrow> rows ?out1 ! i = set_cols s (blocks ! i) (rows out ! i)"
      using lb Cons.prems(2) by simp
    have wd1: "\<forall>r\<in>set (rows ?out1). length r = ncols ?out1"
    proof
      fix r assume "r \<in> set (rows ?out1)"
      then obtain i where i: "i < length df" "r = rows ?out1 ! i"
        using len1 by (metis in_set_conv_nth)
      then show "length r = ncols ?out1"
        using nth1[OF i(1)] length_set_cols[OF fiti[OF i(1)]] ri[OF i(1)] by simp
    qed
    from Cons.IH[OF rest len1 wd1]
    have IH1: "length (rows out') = length df" "\<forall>r\<in>set (rows out'). length r = ncols out"
      and IH2: "\<And>i. i < length df \<Longrightarrow> rows out' ! i =
          take (s + block_width vc ?nt) (rows ?out1 ! i) @ row_blocks stats skip_feats ks (df ! i)
            @ drop s' (rows ?out1 ! i)"
      by auto
    from dummies_loop_cursor[OF rest] have s': "s + block_width vc ?nt \<le> s'"
      by simp
    have "rows out' ! i = take s (rows out ! i) @ row_blocks stats skip_feats (k # ks) (df ! i)
            @ drop s' (rows out ! i)" if i: "i < length df" for i
    proof -
      have tb: "the_block stats k (df ! i) = blocks ! i"
        using vc bi[OF i] by (simp add: the_block_def)
      have t: "take (s + block_width vc ?nt) (rows ?out1 ! i) = take s (rows out ! i) @ blocks ! i"
        using take_set_cols[OF fiti[OF i]] nth1[OF i] wi[OF i] by simp
      have d: "drop s' (rows ?out1 ! i) = drop s' (rows out ! i)"
        using drop_set_cols[OF fiti[OF i]] s' nth1[OF i] wi[OF i] by simp
      show ?thesis
        using IH2[OF i] t d tb False by (simp add: row_blocks_Cons)
    qed
    with IH1 show ?thesis by blast
  qed
qed

lemma dummies_loop_no_assert:
  "dummies_loop stats skip_feats df ks st \<noteq> Inl AssertionError"
proof (induction ks arbitrary: st)
  case Nil
  then show ?case by simp
next
  case (Cons k ks)
  obtain out s names where st: "st = (out, s, names)" by (cases st) auto
  show ?case unfolding st
    using Cons.IH by (simp add: Let_def split: option.splits)
qed

lemma kept_reals_count:
  assumes "distinct rfs" and "set idx = set rfs"
  shows "length (filter (\<lambda>f. f \<notin> skip_feats) rfs)
       = length (remdups (filter (\<lambda>f. f \<notin> skip_feats) idx))"
proof -
  have "length (filter (\<lambda>f. f \<notin> skip_feats) rfs) = card (set (filter (\<lambda>f. f \<notin> skip_feats) rfs))"
    using distinct_card[of "filter (\<lambda>f. f \<notin> skip_feats) rfs"] assms(1) by simp
  also have "set (filter (\<lambda>f. f \<notin> skip_feats) rfs) = set (filter (\<lambda>f. f \<notin> skip_feats) idx)"
    using assms(2) by auto
  also have "card \<dots> = length (remdups (filter (\<lambda>f. f \<notin> skip_feats) idx))"
    by (simp add: length_remdups_card_conv)
  finally show ?thesis .
qed

lemma items_sum_as_keys:
  assumes "distinct (map fst vcs)"
  shows "sum_list (map (\<lambda>(k, v). g v) (filter (\<lambda>(k, v). k \<notin> skip_feats) vcs))
       = sum_list (map (\<lambda>k. case map_of vcs k of None \<Rightarrow> 0 | Some v \<Rightarrow> g v)
           (filter (\<lambda>k. k \<notin> skip_feats) (map fst vcs)))"
  using assms
proof (induction vcs)
  case Nil
  then show ?case by simp
next
  case (Cons kv vcs)
  obtain k v where kv: "kv = (k, v)" by (cases kv) auto
  from Cons.prems kv have nk: "k \<notin> fst ` set vcs" and d: "distinct (map fst vcs)"
    by auto
  have same: "sum_list (map (\<lambda>k'. case map_of ((k, v) # vcs) k' of None \<Rightarrow> 0 | Some v \<Rightarrow> g v)
        (filter (\<lambda>k. k \<notin> skip_feats) (map fst vcs)))
      = sum_list (map (\<lambda>k'. case map_of vcs k' of None \<Rightarrow> 0 | Some v \<Rightarrow> g v)
        (filter (\<lambda>k. k \<notin> skip_feats) (map fst vcs)))"
    by (rule arg_cong[where f = sum_list], rule map_cong)
       (use nk in \<open>auto simp: image_iff\<close>)
  have hd: "(case map_of ((k, v) # vcs) k of None \<Rightarrow> 0 | Some v \<Rightarrow> g v) = g v"
    by simp
  show ?case unfolding kv
    using Cons.IH[OF d] same hd by (simp del: map_of.simps)
qed

lemma loop_width_items:
  assumes "distinct (map fst (value_counts stats))" and "distinct ks"
    and "set (map fst (value_counts stats)) = set ks"
  shows "loop_width stats skip_feats ks
       = sum_list (map (\<lambda>(k, v). block_width v (n_total stats))
           (filter (\<lambda>(k, v). k \<notin> skip_feats) (value_counts stats)))"
proof -
  let ?g = "\<lambda>k. case map_of (value_counts stats) k of None \<Rightarrow> 0
                 | Some vc \<Rightarrow> block_width vc (n_total stats)"
  have "loop_width stats skip_feats ks = sum ?g (set (filter (\<lambda>k. k \<notin> skip_feats) ks))"
    unfolding loop_width_def using assms(2)
    by (simp add: sum_list_distinct_conv_sum_set)
  also have "set (filter (\<lambda>k. k \<notin> skip_feats) ks)
      = set (filter (\<lambda>k. k \<notin> skip_feats) (map fst (value_counts stats)))"
    using assms(3) by auto
  also have "sum ?g \<dots> = sum_list (map ?g (filter (\<lambda>k. k \<notin> skip_feats) (map fst (value_counts stats))))"
    using assms(1) by (simp add: sum_list_distinct_conv_sum_set)
  also have "\<dots> = sum_list (map (\<lambda>(k, v). block_width v (n_total stats))
           (filter (\<lambda>(k, v). k \<notin> skip_feats) (value_counts stats)))"
    using items_sum_as_keys[OF assms(1), of "\<lambda>v. block_width v (n_total stats)" skip_feats]
    by simp
  finally show ?thesis .
qed

lemma cursor_eq_num_feats:
  assumes "stats_match_schema info stats"
  shows "length (filter (\<lambda>f. f \<notin> skip_feats) (real_feats info))
         + loop_width stats skip_feats (discrete_feats info @ alloc_flags info)
       = py_num_feats stats skip_feats"
  using assms kept_reals_count[of "real_feats info" "map fst (real_means stats)" skip_feats]
    loop_width_items[of stats "discrete_feats info @ alloc_flags info" skip_feats]
  unfolding stats_match_schema_def py_num_feats_def by simp

lemma length_np_broadcast: "np_broadcastable (length v) w \<Longrightarrow> length (np_broadcast v w) = w"
  by (auto simp: np_broadcast_def)

lemma length_reals_of_row:
  assumes "np_broadcastable (length rf) w" "np_broadcastable (length means) w"
    "np_broadcastable (length stds) w"
  shows "length (reals_of_row rf means stds w p) = w"
  using assms by (simp add: reals_of_row_def standardize_def length_np_broadcast)

lemma get_dummies_Inr:
  assumes gd: "get_dummies VERSIONS df stats nf ret_df skip_feats ob = Inr (names, out)"
    and info: "VERSIONS (version stats) = Some info"
    and wf: "case ob of None \<Rightarrow> True | Some b \<Rightarrow> well_shaped b"
  defines "W \<equiv> (case nf of None \<Rightarrow> py_num_feats stats skip_feats | Some n \<Rightarrow> n)"
  shows "ncols out = W" and "length (rows out) = length df"
    and "\<forall>r\<in>set (rows out). length r = W"
    and "W = length (kept_reals info skip_feats)
           + loop_width stats skip_feats (discrete_feats info @ alloc_flags info)"
    and "\<forall>i<length df. rows out ! i = encode_row info stats skip_feats (df ! i)"
proof -
  let ?rf = "kept_reals info skip_feats"
  let ?ks = "discrete_feats info @ alloc_flags info"
  let ?means = "map snd (real_means stats)"
  let ?stds = "map snd (real_stds stats)"
  let ?w = "min (length ?rf) W"
  let ?out0 = "case ob of None \<Rightarrow> np_empty (length df) W | Some b \<Rightarrow> b"
  let ?out1 = "?out0\<lparr>rows := map2 (\<lambda>p row. set_cols 0 (reals_of_row ?rf ?means ?stds ?w p) row)
                  df (rows ?out0)\<rparr>"
  from gd info have ok: "case ob of None \<Rightarrow> True | Some b \<Rightarrow> shape0 b = length df \<and> shape1 b = W"
    and b1: "np_broadcastable (length ?rf) ?w" and b2: "np_broadcastable (length ?means) ?w"
    and b3: "np_broadcastable (length ?stds) ?w"
    by (auto simp: get_dummies_def Let_def W_def kept_reals_def split: if_splits option.splits)
  from gd info obtain fn where
    loop: "dummies_loop stats skip_feats df ?ks (?out1, length ?rf, ?rf) = Inr (out, W, fn)"
    by (auto simp: get_dummies_def Let_def W_def kept_reals_def
        split: if_splits option.splits sum.splits)
  have c0: "ncols ?out0 = W" and l0: "length (rows ?out0) = length df"
    and w0: "\<forall>r\<in>set (rows ?out0). length r = W"
    using ok wf
    by (auto simp: np_empty_def shape0_def shape1_def well_shaped_def list_all_iff
        split: option.splits)
  have lr: "\<And>p. length (reals_of_row ?rf ?means ?stds ?w p) = ?w"
    using length_reals_of_row[OF b1 b2 b3] by simp
  have l1: "length (rows ?out1) = length df" using l0 by simp
  have n1: "rows ?out1 ! i = reals_of_row ?rf ?means ?stds ?w (df ! i) @ drop ?w (rows ?out0 ! i)"
    if "i < length df" for i
    using that l0 lr by (simp add: set_cols_def)
  have w1: "\<forall>r\<in>set (rows ?out1). length r = ncols ?out1"
  proof
    fix r assume "r \<in> set (rows ?out1)"
    then obtain i where i: "i < length df" "r = rows ?out1 ! i"
      using l1 by (metis in_set_conv_nth)
    have "length (rows ?out0 ! i) = W" using w0 l0 i(1) by simp
    then show "length r = ncols ?out1"
      using n1[OF i(1)] i(2) lr c0 by simp
  qed
  from dummies_loop_cursor[OF loop] c0
  show c: "ncols out = W"
    and W: "W = length ?rf + loop_width stats skip_feats ?ks"
    by simp_all
  then have rW: "?w = length ?rf" by simp
  from dummies_loop_rows[OF loop l1 w1] c0
  show "length (rows out) = length df" and "\<forall>r\<in>set (rows out). length r = W"
    by simp_all
  from dummies_loop_rows[OF loop l1 w1]
  have rows: "\<And>i. i < length df \<Longrightarrow> rows out ! i =
      take (length ?rf) (rows ?out1 ! i) @ row_blocks stats skip_feats ?ks (df ! i)
        @ drop W (rows ?out1 ! i)"
    by blast
  show "\<forall>i<length df. rows out ! i = encode_row info stats skip_feats (df ! i)"
  proof (intro allI impI)
    fix i assume i: "i < length df"
    have "rows ?out1 ! i \<in> set (rows ?out1)"
      using l1 i by (metis nth_mem)
    with w1 have "length (rows ?out1 ! i) = ncols ?out1" by blast
    then have len: "length (rows ?out1 ! i) = W"
      using c0 by simp
    have "take (length ?rf) (rows ?out1 ! i) = reals_of_row ?rf ?means ?stds (length ?rf) (df ! i)"
      using n1[OF i] lr rW by simp
    with rows[OF i] len show "rows out ! i = encode_row info stats skip_feats (df ! i)"
      by (simp add: encode_row_def)
  qed
qed

text \<open>
  Claim C1, as amended. When the stats agree with the schema of their version (\<open>real_means\<close>
  is indexed by the schema's real features, \<open>value_counts\<close> has one entry for each discrete
  feature and allocation flag, and no feature is listed twice), then for every batch and every
  skip-set the assertion at the end of \<^verbatim>\<open>get_dummies\<close> cannot fail, an encoded matrix has
  \<^verbatim>\<open>_num_feats\<close> columns in every row, and the column cursor at the end of the loop is
  \<^verbatim>\<open>_num_feats\<close>.
\<close>

theorem num_feats_matches_encoder:
  assumes "VERSIONS (version stats) = Some info" and "stats_match_schema info stats"
  shows "get_dummies VERSIONS df stats None ret_df skip_feats None \<noteq> Inl AssertionError \<and>
    (\<forall>names out. get_dummies VERSIONS df stats None ret_df skip_feats None = Inr (names, out) \<longrightarrow>
       shape0 out = length df \<and> shape1 out = py_num_feats stats skip_feats \<and>
       list_all (\<lambda>r. length r = py_num_feats stats skip_feats) (rows out)) \<and>
    (\<forall>out0 names0 out1 start_col names1.
       dummies_loop stats skip_feats df (discrete_feats info @ alloc_flags info)
         (out0, length (filter (\<lambda>f. f \<notin> skip_feats) (real_feats info)), names0)
         = Inr (out1, start_col, names1) \<longrightarrow>
       start_col = py_num_feats stats skip_feats)"
proof (intro conjI allI impI)
  show "get_dummies VERSIONS df stats None ret_df skip_feats None \<noteq> Inl AssertionError"
  proof
    assume a: "get_dummies VERSIONS df stats None ret_df skip_feats None = Inl AssertionError"
    let ?rf = "filter (\<lambda>f. f \<notin> skip_feats) (real_feats info)"
    let ?ks = "discrete_feats info @ alloc_flags info"
    from a assms(1) obtain out1 out2 s names where
      loop: "dummies_loop stats skip_feats df ?ks (out1, length ?rf, ?rf) = Inr (out2, s, names)"
      and ne: "s \<noteq> py_num_feats stats skip_feats"
      using dummies_loop_no_assert[of stats skip_feats df ?ks]
      by (auto simp: get_dummies_def Let_def split: if_splits sum.splits)
    from dummies_loop_cursor[OF loop] ne cursor_eq_num_feats[OF assms(2), of skip_feats]
    show False by simp
  qed
next
  fix names out
  assume "get_dummies VERSIONS df stats None ret_df skip_feats None = Inr (names, out)"
  from get_dummies_Inr(1-3)[OF this assms(1)]
  show "shape0 out = length df" "shape1 out = py_num_feats stats skip_feats"
    "list_all (\<lambda>r. length r = py_num_feats stats skip_feats) (rows out)"
    by (simp_all add: shape0_def shape1_def list_all_iff)
next
  fix out0 names0 out1 start_col names1
  assume "dummies_loop stats skip_feats df (discrete_feats info @ alloc_flags info)
         (out0, length (filter (\<lambda>f. f \<notin> skip_feats) (real_feats info)), names0)
         = Inr (out1, start_col, names1)"
  from dummies_loop_cursor[OF this] cursor_eq_num_feats[OF assms(2), of skip_feats]
  show "start_col = py_num_feats stats skip_feats" by simp
qed

lemma ex_match: "stats_match_schema ex_info ex_stats"
  by (simp add: stats_match_schema_def ex_info_def ex_stats_def)

theorem num_feats_matches_encoder_witness:
  "ex_VERSIONS (version ex_stats) = Some ex_info \<and> stats_match_schema ex_info ex_stats \<and>
   get_dummies ex_VERSIONS [ex_person 50 (Some ''2'') (Some ''1'') 3] ex_stats None False {} None
     = Inr (None, \<lparr>ncols = 5, rows = [[Fin 1, Fin 0, Fin 1, Fin 0, Fin 1]]\<rparr>) \<and>
   py_num_feats ex_stats {} = 5"
proof -
  have v: "ex_VERSIONS (version ex_stats) = Some ex_info"
    by (simp add: ex_VERSIONS_def ex_stats_def)
  have r: "get_dummies ex_VERSIONS [ex_person 50 (Some ''2'') (Some ''1'') 3] ex_stats None False {} None
     = Inr (None, \<lparr>ncols = 5, rows = [[Fin 1, Fin 0, Fin 1, Fin 0, Fin 1]]\<rparr>)"
    by code_simp
  from num_feats_matches_encoder[where VERSIONS = ex_VERSIONS and stats = ex_stats
      and info = ex_info and df = "[ex_person 50 (Some ''2'') (Some ''1'') 3]"
      and ret_df = False and skip_feats = "{}", OF v ex_match] r
  have "py_num_feats ex_stats {} = 5"
    by (simp add: shape1_def)
  with v ex_match r show ?thesis by simp
qed

text \<open>
  Without that agreement the count and the encoder part ways: here the stats carry the mean of
  a feature that the schema does not list, the count is one column, the cursor ends at zero and
  the assertion fails.
\<close>

theorem num_feats_counterexample:
  "py_num_feats cx_stats {} = 1 \<and>
   get_dummies (\<lambda>v. Some cx_info) [ex_person 50 None None 3] cx_stats None False {} None
     = Inl AssertionError"
  by code_simp

text \<open>
  Claim C3, at the input where the code departs from it. \<open>SEX\<close> has the stored categories
  \<open>1\<close> and \<open>2\<close>, whose counts add up to \<open>n_total\<close>, so it has no overflow column. A record
  with the unseen value \<open>3\<close> gets the code \<open>-1\<close>, which \<^verbatim>\<open>take\<close> counts from the end: the
  block is \<open>[0, 1]\<close>, the encoding of category \<open>2\<close>, and not \<open>[0, 0]\<close>.
\<close>

theorem unseen_category_without_overflow:
  "get_dummies ex_VERSIONS [ex_person 50 (Some ''3'') (Some ''0'') 3] ex_stats None True {} None
   = Inr (Some [''AGEP'', ''SEX_1'', ''SEX_2'', ''FAGEP_0'', ''FAGEP_nan''],
          \<lparr>ncols = 5, rows = [[Fin 1, Fin 0, Fin 1, Fin 1, Fin 0]]\<rparr>)"
  by code_simp

text \<open>
  Claim C6 as stated fails on an infinite value: with a standard deviation of zero and a value
  off the mean the quotient is infinite, \<^verbatim>\<open>np.isnan\<close> does not select it, and it stays in
  the matrix.
\<close>

theorem zero_std_counterexample:
  "get_dummies ex_VERSIONS [ex_person 50 (Some ''1'') (Some ''0'') 3] zs_stats None False {} None
   = Inr (None, \<lparr>ncols = 5, rows = [[PInf, Fin 1, Fin 0, Fin 1, Fin 0]]\<rparr>)"
  by code_simp

end
